theory Spec2Isabelle
  imports Main
begin

section \<open>Strings, exceptions and regular expressions\<close>

text \<open>
  A JavaScript string is modelled as a \<^typ>\<open>string\<close>: one list element stands for one
  UTF-16 code unit, restricted to the code units below 256. \<open>length\<close> is then the
  source's \<open>.length\<close>.

  A thrown \<open>new Error(message)\<close> is the value \<open>Exn message\<close>.
\<close>

datatype exn = Exn string

text \<open>
  \<open>String.prototype.match\<close> with a non-global pattern is the backtracking matcher of the
  language standard: a pattern is matched against the text with a continuation that
  stands for the rest of the pattern, quantifiers are greedy (the body is tried before
  the continuation), an iteration of a quantifier that consumes nothing is rejected, and
  the search tries every start position from left to right. Only the constructs the
  source's patterns use are modelled: character sets, sequence, \<open>?\<close>, \<open>*\<close>, \<open>+\<close> and
  capture groups. No group of the source's patterns is repeated, so the reset of
  captures at the start of an iteration is not modelled.
\<close>

datatype regex =
    Eps
  | Atom "char \<Rightarrow> bool"
  | Seq regex regex
  | Opt regex
  | Star regex
  | Group nat regex

type_synonym captures = "nat \<Rightarrow> string option"

fun matcher ::
  "regex \<Rightarrow> string \<Rightarrow> captures \<Rightarrow> (string \<Rightarrow> captures \<Rightarrow> captures option) \<Rightarrow> captures option"
where
  "matcher Eps s c k = k s c"
| "matcher (Atom p) s c k = (case s of [] \<Rightarrow> None | x # xs \<Rightarrow> if p x then k xs c else None)"
| "matcher (Seq a b) s c k = matcher a s c (\<lambda>s' c'. matcher b s' c' k)"
| "matcher (Opt a) s c k =
     (case matcher a s c (\<lambda>s' c'. if length s' < length s then k s' c' else None) of
        Some r \<Rightarrow> Some r
      | None \<Rightarrow> k s c)"
| "matcher (Star a) s c k =
     (case matcher a s c
             (\<lambda>s' c'. if length s' < length s then matcher (Star a) s' c' k else None) of
        Some r \<Rightarrow> Some r
      | None \<Rightarrow> k s c)"
| "matcher (Group n a) s c k =
     matcher a s c (\<lambda>s' c'. k s' (c'(n \<mapsto> take (length s - length s') s)))"

definition match_here :: "regex \<Rightarrow> string \<Rightarrow> captures option" where
  "match_here r s = matcher r s (\<lambda>_. None) (\<lambda>_ c. Some c)"

text \<open>\<open>text.match(r)\<close>: the captures of the leftmost match, or \<open>None\<close> for \<open>null\<close>.\<close>

fun js_match :: "regex \<Rightarrow> string \<Rightarrow> captures option" where
  "js_match r [] = match_here r []"
| "js_match r (x # xs) =
     (case match_here r (x # xs) of Some c \<Rightarrow> Some c | None \<Rightarrow> js_match r xs)"

definition Plus :: "regex \<Rightarrow> regex" where
  "Plus a = Seq a (Star a)"

primrec lit :: "string \<Rightarrow> regex" where
  "lit [] = Eps"
| "lit (x # xs) = Seq (Atom (\<lambda>y. y = x)) (lit xs)"

primrec seqs :: "regex list \<Rightarrow> regex" where
  "seqs [] = Eps"
| "seqs (r # rs) = Seq r (seqs rs)"

text \<open>The groups that take part in every match of a pattern.\<close>

primrec sets_groups :: "regex \<Rightarrow> nat set" where
  "sets_groups Eps = {}"
| "sets_groups (Atom p) = {}"
| "sets_groups (Seq a b) = sets_groups a \<union> sets_groups b"
| "sets_groups (Opt a) = {}"
| "sets_groups (Star a) = {}"
| "sets_groups (Group n a) = insert n (sets_groups a)"

text \<open>\<open>\w\<close> is \<open>[A-Za-z0-9_]\<close>; \<open>\s\<close> is, below code unit 256, tab, line feed, vertical tab,
  form feed, carriage return, space and the no-break space.\<close>

definition word_char :: "char \<Rightarrow> bool" where
  "word_char ch =
     (let n = (of_char ch :: nat)
      in (48 \<le> n \<and> n \<le> 57) \<or> (65 \<le> n \<and> n \<le> 90) \<or> n = 95 \<or> (97 \<le> n \<and> n \<le> 122))"

definition space_char :: "char \<Rightarrow> bool" where
  "space_char ch = (let n = (of_char ch :: nat) in (9 \<le> n \<and> n \<le> 13) \<or> n = 32 \<or> n = 160)"

definition newline :: char where
  "newline = CHR 0x0A"

text \<open>A capture spliced into a template literal: an undefined group prints as
  \<open>undefined\<close>.\<close>

definition template :: "string option \<Rightarrow> string" where
  "template v = (case v of Some s \<Rightarrow> s | None \<Rightarrow> ''undefined'')"

text \<open>\<open>s.slice(-k)\<close> for a positive \<open>k\<close>: the last \<open>k\<close> code units, all of \<open>s\<close> when it is
  shorter.\<close>

definition slice_last :: "nat \<Rightarrow> string \<Rightarrow> string" where
  "slice_last k s = drop (length s - k) s"

section \<open>The diagnostic stream classifier (ChatViewProvider.handleStderr)\<close>

text \<open>\<open>/(\w+Error):\s*(\w+)?\s*\n?\s*data:\s*\{([^}]+)\}/\<close>\<close>

definition errorPattern :: regex where
  "errorPattern =
     seqs [Group 1 (Seq (Plus (Atom word_char)) (lit ''Error'')),
           lit '':'',
           Star (Atom space_char),
           Opt (Group 2 (Plus (Atom word_char))),
           Star (Atom space_char),
           Opt (Atom (\<lambda>y. y = newline)),
           Star (Atom space_char),
           lit ''data:'',
           Star (Atom space_char),
           lit ''{'',
           Group 3 (Plus (Atom (\<lambda>y. y \<noteq> CHR ''}''))),
           lit ''}'']"

text \<open>\<open>/providerID:\s*"([^"]+)"/\<close> and \<open>/modelID:\s*"([^"]+)"/\<close>\<close>

definition fieldPattern :: "string \<Rightarrow> regex" where
  "fieldPattern name =
     seqs [lit name, lit '':'', Star (Atom space_char), lit [CHR 0x22],
           Group 1 (Plus (Atom (\<lambda>y. y \<noteq> CHR 0x22))), lit [CHR 0x22]]"

definition providerPattern :: regex where
  "providerPattern = fieldPattern ''providerID''"

definition modelPattern :: regex where
  "modelPattern = fieldPattern ''modelID''"

text \<open>
  The part of the view provider that \<open>handleStderr\<close> touches: whether a webview is
  attached (\<open>this.view\<close>), the diagnostic buffer, and the messages handed to
  \<open>webview.postMessage\<close>, in order. A message object is the list of its fields.
\<close>

type_synonym message = "(string \<times> string) list"

record ChatViewProvider =
  view :: bool
  stderrBuffer :: string
  webviewMessages :: "message list"

definition postMessage :: "ChatViewProvider \<Rightarrow> message \<Rightarrow> ChatViewProvider" where
  "postMessage p m = (if view p then p\<lparr>webviewMessages := webviewMessages p @ [m]\<rparr> else p)"

text \<open>The message text the source computes from a match of \<open>errorPattern\<close>.\<close>

definition classification :: "string option \<Rightarrow> string \<Rightarrow> string" where
  "classification errorType errorData =
     (case (js_match providerPattern errorData, js_match modelPattern errorData) of
        (Some providerMatch, Some modelMatch) \<Rightarrow>
          ''Model not found: '' @ template (providerMatch 1) @ ''/'' @ template (modelMatch 1)
      | _ \<Rightarrow> ''Agent error: '' @ template errorType)"

definition truncateBuffer :: "ChatViewProvider \<Rightarrow> ChatViewProvider" where
  "truncateBuffer p =
     (if length (stderrBuffer p) > 10000
      then p\<lparr>stderrBuffer := slice_last 5000 (stderrBuffer p)\<rparr>
      else p)"

text \<open>\<open>errorData.match\<close> on an undefined capture would raise a TypeError; the model keeps
  that branch, and \<open>handleStderr_returns\<close> below shows that it is never taken.\<close>

definition handleStderr :: "ChatViewProvider \<Rightarrow> string \<Rightarrow> exn + ChatViewProvider" where
  "handleStderr p text =
     (let p1 = p\<lparr>stderrBuffer := stderrBuffer p @ text\<rparr>
      in case js_match errorPattern (stderrBuffer p1) of
           Some errorMatch \<Rightarrow>
             (case errorMatch 3 of
                None \<Rightarrow> Inl (Exn ''TypeError'')
              | Some errorData \<Rightarrow>
                  Inr (truncateBuffer
                        ((postMessage p1
                           [(''type'', ''agentError''),
                            (''text'', classification (errorMatch 1) errorData)])
                         \<lparr>stderrBuffer := []\<rparr>)))
         | None \<Rightarrow> Inr (truncateBuffer p1))"

subsection \<open>What the patterns mean\<close>

text \<open>
  A second reading of the patterns, independent of the matcher. \<open>spans r w c c'\<close> says that
  the pattern \<open>r\<close> can consume exactly the text \<open>w\<close>, taking the captures \<open>c\<close> to \<open>c'\<close>:
  the declarative meaning of the constructs, with no order of alternatives and no
  backtracking. The matcher is compared with it below.
\<close>

inductive spans :: "regex \<Rightarrow> string \<Rightarrow> captures \<Rightarrow> captures \<Rightarrow> bool" where
  spans_Eps: "spans Eps [] c c"
| spans_Atom: "p x \<Longrightarrow> spans (Atom p) [x] c c"
| spans_Seq: "spans a u c c' \<Longrightarrow> spans b v c' c'' \<Longrightarrow> spans (Seq a b) (u @ v) c c''"
| spans_Opt_skip: "spans (Opt a) [] c c"
| spans_Opt: "spans a w c c' \<Longrightarrow> w \<noteq> [] \<Longrightarrow> spans (Opt a) w c c'"
| spans_Star_stop: "spans (Star a) [] c c"
| spans_Star: "spans a u c c' \<Longrightarrow> u \<noteq> [] \<Longrightarrow> spans (Star a) v c' c'' \<Longrightarrow>
     spans (Star a) (u @ v) c c''"
| spans_Group: "spans a w c c' \<Longrightarrow> spans (Group n a) w c (c'(n \<mapsto> w))"







section \<open>The logger\<close>

datatype LogLevel = Debug | Info | Warn | Error

fun level_value :: "LogLevel \<Rightarrow> nat" where
  "level_value Debug = 0"
| "level_value Info = 1"
| "level_value Warn = 2"
| "level_value Error = 3"

text \<open>
  The output channel is the list of the lines appended to it. A line is kept as the pair
  of its level and message: the time stamp the source puts in front is not modelled, and
  neither is the rendering of the extra arguments of \<open>debug\<close>, \<open>info\<close> and \<open>warn\<close>.
\<close>

record Logger =
  level :: LogLevel
  outputChannel :: "(LogLevel \<times> string) list"

definition logger_log :: "Logger \<Rightarrow> LogLevel \<Rightarrow> string \<Rightarrow> Logger" where
  "logger_log lg lvl msg =
     (if level_value lvl < level_value (level lg) then lg
      else lg\<lparr>outputChannel := outputChannel lg @ [(lvl, msg)]\<rparr>)"

definition logger_debug :: "Logger \<Rightarrow> string \<Rightarrow> Logger" where
  "logger_debug lg msg = logger_log lg Debug msg"

definition logger_info :: "Logger \<Rightarrow> string \<Rightarrow> Logger" where
  "logger_info lg msg = logger_log lg Info msg"

definition logger_warn :: "Logger \<Rightarrow> string \<Rightarrow> Logger" where
  "logger_warn lg msg = logger_log lg Warn msg"

text \<open>\<open>error(message, error?)\<close>: the text of the error (its stack, or its message) goes on a
  new line after the message; the model takes the error's message for that text.\<close>

definition logger_error :: "Logger \<Rightarrow> string \<Rightarrow> exn option \<Rightarrow> Logger" where
  "logger_error lg msg err =
     logger_log lg Error
       (case err of None \<Rightarrow> msg | Some (Exn t) \<Rightarrow> msg @ [newline] @ t)"

text \<open>A number spliced into a template literal.\<close>

fun show_nat :: "nat \<Rightarrow> string" where
  "show_nat n =
     (if n < 10 then [char_of (48 + n)]
      else show_nat (n div 10) @ [char_of (48 + n mod 10)])"

declare show_nat.simps [simp del]

section \<open>The protocol client (ACPClient)\<close>

subsection \<open>Data\<close>

text \<open>
  The types of the protocol library are not part of the sources; they are modelled with
  the fields the client reads. A session update is the closed union of the library's
  update kinds, each with the payload the client or the view looks at.
\<close>

record SessionMode =
  modeId :: string
  modeName :: string

record SessionModeState =
  availableModes :: "SessionMode list"
  currentModeId :: string

record SessionModel =
  modelId :: string
  modelName :: string

record SessionModelState =
  availableModels :: "SessionModel list"
  currentModelId :: string

record AvailableCommand =
  commandName :: string
  commandDescription :: string

record SessionMetadata =
  modes :: "SessionModeState option"
  models :: "SessionModelState option"
  commands :: "AvailableCommand list option"

datatype ACPConnectionState = disconnected | connecting | connected | error

datatype SessionUpdate =
    user_message_chunk string
  | agent_message_chunk string
  | agent_thought_chunk string
  | tool_call string
  | tool_call_update string
  | plan
  | available_commands_update "AvailableCommand list"
  | current_mode_update string

fun sessionUpdate_kind :: "SessionUpdate \<Rightarrow> string" where
  "sessionUpdate_kind (user_message_chunk _) = ''user_message_chunk''"
| "sessionUpdate_kind (agent_message_chunk _) = ''agent_message_chunk''"
| "sessionUpdate_kind (agent_thought_chunk _) = ''agent_thought_chunk''"
| "sessionUpdate_kind (tool_call _) = ''tool_call''"
| "sessionUpdate_kind (tool_call_update _) = ''tool_call_update''"
| "sessionUpdate_kind plan = ''plan''"
| "sessionUpdate_kind (available_commands_update _) = ''available_commands_update''"
| "sessionUpdate_kind (current_mode_update _) = ''current_mode_update''"

record SessionNotification =
  notificationSessionId :: string
  update :: "SessionUpdate option"

record PermissionOption =
  optionId :: string
  kind :: string

record RequestPermissionRequest =
  options :: "PermissionOption list"

datatype RequestPermissionOutcome = selected string | cancelled

record InitializeResponse =
  protocolVersion :: nat

record NewSessionResponse =
  sessionId :: string
  responseModes :: "SessionModeState option"
  responseModels :: "SessionModelState option"

record PromptResponse =
  stopReason :: string

record AgentConfig =
  agentId :: string
  agentName :: string
  command :: string
  args :: "string list"

text \<open>
  A callback is an observer: called with a value, it returns or throws. It is identified
  by \<open>cbId\<close> (the identity of the function object). Callbacks that call back into the
  client are outside the model.

  A \<open>Set\<close> of callbacks is the list of its members in insertion order.
\<close>

record 'a callback =
  cbId :: nat
  cbThrows :: "'a \<Rightarrow> exn option"

definition set_add :: "'a callback list \<Rightarrow> 'a callback \<Rightarrow> 'a callback list" where
  "set_add cbs cb = (if cbId cb \<in> cbId ` set cbs then cbs else cbs @ [cb])"

definition set_delete :: "'a callback list \<Rightarrow> 'a callback \<Rightarrow> 'a callback list" where
  "set_delete cbs cb = filter (\<lambda>c. cbId c \<noteq> cbId cb) cbs"

text \<open>
  \<open>listeners.forEach((cb) => cb(x))\<close>: the callbacks are called in order, and the first
  one that throws ends the loop. The calls made are appended to \<open>calls\<close>.
\<close>

fun forEach ::
  "'a callback list \<Rightarrow> 'a \<Rightarrow> (nat \<times> 'a) list \<Rightarrow> exn option \<times> (nat \<times> 'a) list"
where
  "forEach [] x calls = (None, calls)"
| "forEach (cb # cbs) x calls =
     (case cbThrows cb x of
        Some e \<Rightarrow> (Some e, calls @ [(cbId cb, x)])
      | None \<Rightarrow> forEach cbs x (calls @ [(cbId cb, x)]))"

text \<open>What callback \<open>i\<close> was called with, in order.\<close>

definition received :: "nat \<Rightarrow> (nat \<times> 'a) list \<Rightarrow> 'a list" where
  "received i calls = map snd (filter (\<lambda>call. fst call = i) calls)"

text \<open>
  The client. \<open>process\<close> and \<open>connection\<close> hold the handle of the child process they
  belong to. The last five fields are not fields of the source: the logger (a global
  there), the calls made to the callbacks of each set, and the processes \<open>kill()\<close> was
  called on.
\<close>

record ACPClient =
  process :: "nat option"
  connection :: "nat option"
  state :: ACPConnectionState
  currentSessionId :: "string option"
  sessionMetadata :: "SessionMetadata option"
  pendingCommands :: "AvailableCommand list option"
  stateChangeListeners :: "ACPConnectionState callback list"
  sessionUpdateListeners :: "SessionNotification callback list"
  stderrListeners :: "string callback list"
  agentConfig :: AgentConfig
  skipAvailabilityCheck :: bool
  logger :: Logger
  stateChangeCalls :: "(nat \<times> ACPConnectionState) list"
  sessionUpdateCalls :: "(nat \<times> SessionNotification) list"
  stderrCalls :: "(nat \<times> string) list"
  killed :: "nat list"

text \<open>The outcome of an asynchronous call.\<close>

datatype 'a promise = Resolved 'a | Rejected exn | Pending

subsection \<open>Construction, subscriptions and getters\<close>

text \<open>
  \<open>new ACPClient(options)\<close>: the argument is absent, an agent configuration, or an options
  object whose fields are optional. \<open>getDefaultAgent()\<close> and the logger are parameters. The
  injected \<open>spawn\<close> function is the environment of \<open>connect\<close> and is not stored.
\<close>

datatype constructor_argument =
    no_argument
  | config_argument AgentConfig
  | options_argument "AgentConfig option" "bool option"

definition new_ACPClient :: "AgentConfig \<Rightarrow> Logger \<Rightarrow> constructor_argument \<Rightarrow> ACPClient" where
  "new_ACPClient defaultAgent lg arg =
     \<lparr>process = None, connection = None, state = disconnected, currentSessionId = None,
      sessionMetadata = None, pendingCommands = None,
      stateChangeListeners = [], sessionUpdateListeners = [], stderrListeners = [],
      agentConfig =
        (case arg of
           config_argument cfg \<Rightarrow> cfg
         | options_argument (Some cfg) _ \<Rightarrow> cfg
         | _ \<Rightarrow> defaultAgent),
      skipAvailabilityCheck =
        (case arg of options_argument _ (Some b) \<Rightarrow> b | _ \<Rightarrow> False),
      logger = lg, stateChangeCalls = [], sessionUpdateCalls = [], stderrCalls = [],
      killed = []\<rparr>"

definition setOnStateChange :: "ACPClient \<Rightarrow> ACPConnectionState callback \<Rightarrow> ACPClient" where
  "setOnStateChange c cb = c\<lparr>stateChangeListeners := set_add (stateChangeListeners c) cb\<rparr>"

definition setOnSessionUpdate :: "ACPClient \<Rightarrow> SessionNotification callback \<Rightarrow> ACPClient" where
  "setOnSessionUpdate c cb = c\<lparr>sessionUpdateListeners := set_add (sessionUpdateListeners c) cb\<rparr>"

definition setOnStderr :: "ACPClient \<Rightarrow> string callback \<Rightarrow> ACPClient" where
  "setOnStderr c cb = c\<lparr>stderrListeners := set_add (stderrListeners c) cb\<rparr>"

text \<open>The functions that the three registrations return.\<close>

definition unsetOnStateChange :: "ACPClient \<Rightarrow> ACPConnectionState callback \<Rightarrow> ACPClient" where
  "unsetOnStateChange c cb = c\<lparr>stateChangeListeners := set_delete (stateChangeListeners c) cb\<rparr>"

definition unsetOnSessionUpdate :: "ACPClient \<Rightarrow> SessionNotification callback \<Rightarrow> ACPClient" where
  "unsetOnSessionUpdate c cb =
     c\<lparr>sessionUpdateListeners := set_delete (sessionUpdateListeners c) cb\<rparr>"

definition unsetOnStderr :: "ACPClient \<Rightarrow> string callback \<Rightarrow> ACPClient" where
  "unsetOnStderr c cb = c\<lparr>stderrListeners := set_delete (stderrListeners c) cb\<rparr>"

definition isConnected :: "ACPClient \<Rightarrow> bool" where
  "isConnected c = (state c = connected)"

definition getState :: "ACPClient \<Rightarrow> ACPConnectionState" where
  "getState c = state c"

definition getAgentId :: "ACPClient \<Rightarrow> string" where
  "getAgentId c = agentId (agentConfig c)"

definition getSessionMetadata :: "ACPClient \<Rightarrow> SessionMetadata option" where
  "getSessionMetadata c = sessionMetadata c"

subsection \<open>State changes\<close>

text \<open>\<open>setState\<close> returns the exception of a callback that threw, with the client as the
  callbacks left it.\<close>

definition setState :: "ACPClient \<Rightarrow> ACPConnectionState \<Rightarrow> exn option \<times> ACPClient" where
  "setState c st =
     (if state c \<noteq> st
      then (case forEach (stateChangeListeners c) st (stateChangeCalls c) of
              (r, calls) \<Rightarrow> (r, c\<lparr>state := st, stateChangeCalls := calls\<rparr>))
      else (None, c))"

definition dispose :: "ACPClient \<Rightarrow> exn option \<times> ACPClient" where
  "dispose c =
     (let c1 = (case process c of
                  Some p \<Rightarrow> c\<lparr>killed := killed c @ [p], process := None\<rparr>
                | None \<Rightarrow> c)
      in setState
           (c1\<lparr>connection := None, currentSessionId := None, sessionMetadata := None,
               pendingCommands := None\<rparr>)
           disconnected)"

definition setAgent :: "ACPClient \<Rightarrow> AgentConfig \<Rightarrow> exn option \<times> ACPClient" where
  "setAgent c config =
     (if state c \<noteq> disconnected
      then (case dispose c of
              (Some e, c1) \<Rightarrow> (Some e, c1)
            | (None, c1) \<Rightarrow> (None, c1\<lparr>agentConfig := config\<rparr>))
      else (None, c\<lparr>agentConfig := config\<rparr>))"

subsection \<open>The handlers of the child process\<close>

text \<open>The handler of the \<open>data\<close> event of the diagnostic stream.\<close>

definition onStderrData :: "ACPClient \<Rightarrow> string \<Rightarrow> exn option \<times> ACPClient" where
  "onStderrData c text =
     (let c1 = c\<lparr>logger := logger_error (logger c) (''[Agent stderr] '' @ text) None\<rparr>
      in case forEach (stderrListeners c1) text (stderrCalls c1) of
           (r, calls) \<Rightarrow> (r, c1\<lparr>stderrCalls := calls\<rparr>))"

text \<open>The first handler of the \<open>error\<close> event.\<close>

definition onProcessError :: "ACPClient \<Rightarrow> exn \<Rightarrow> exn option \<times> ACPClient" where
  "onProcessError c err =
     setState (c\<lparr>logger := logger_error (logger c) ''Process error'' (Some err)\<rparr>) error"

text \<open>The handler of the \<open>exit\<close> event; the exit code is a number or \<open>null\<close>.\<close>

definition onProcessExit :: "ACPClient \<Rightarrow> nat option \<Rightarrow> exn option \<times> ACPClient" where
  "onProcessExit c code =
     (let c1 = c\<lparr>logger :=
                  logger_info (logger c)
                    (''Process exited with code: '' @
                       (case code of Some n \<Rightarrow> show_nat n | None \<Rightarrow> ''null''))\<rparr>
      in case setState c1 disconnected of
           (Some e, c2) \<Rightarrow> (Some e, c2)
         | (None, c2) \<Rightarrow> (None, c2\<lparr>connection := None, process := None\<rparr>))"

subsection \<open>connect\<close>

definition AlreadyActive :: exn where
  "AlreadyActive = Exn ''Already connected or connecting''"

definition AgentUnavailable :: "AgentConfig \<Rightarrow> exn" where
  "AgentUnavailable cfg =
     Exn (''Agent '' @ [CHR 0x22] @ agentName cfg @ [CHR 0x22] @ '' is not installed. '' @
          ''Please install '' @ [CHR 0x22] @ command cfg @ [CHR 0x22] @ '' and try again.'')"

definition SpawnError :: "exn \<Rightarrow> exn" where
  "SpawnError err = (case err of Exn m \<Rightarrow> Exn (''Failed to start agent process: '' @ m))"

text \<open>The \<open>catch\<close> block of \<open>connect\<close>: an exception of \<open>setState\<close> replaces the one caught.\<close>

definition connect_catch :: "ACPClient \<Rightarrow> exn \<Rightarrow> 'a promise \<times> ACPClient" where
  "connect_catch c e =
     (case setState c error of
        (Some e', c1) \<Rightarrow> (Rejected e', c1)
      | (None, c1) \<Rightarrow> (Rejected e, c1))"

text \<open>
  \<open>connect\<close> up to its \<open>await\<close>. \<open>available\<close> is the result of \<open>isAgentAvailable\<close>, and
  \<open>spawned\<close> what the spawn function does: it throws, or it returns the handle of the
  new process. Wrapping the streams of the process and creating the connection object do
  not throw. The result is \<open>Pending\<close> when the call has reached the \<open>await\<close>.
\<close>

definition connect_begin ::
  "ACPClient \<Rightarrow> bool \<Rightarrow> exn + nat \<Rightarrow> InitializeResponse promise \<times> ACPClient"
where
  "connect_begin c available spawned =
     (if state c = connected \<or> state c = connecting then (Rejected AlreadyActive, c)
      else if \<not> skipAvailabilityCheck c \<and> \<not> available
      then (Rejected (AgentUnavailable (agentConfig c)), c)
      else (case setState c connecting of
              (Some e, c1) \<Rightarrow> (Rejected e, c1)
            | (None, c1) \<Rightarrow>
                (case spawned of
                   Inl e \<Rightarrow> connect_catch c1 e
                 | Inr p \<Rightarrow> (Pending, c1\<lparr>process := Some p, connection := Some p\<rparr>))))"

text \<open>\<open>connect\<close> after its \<open>await\<close>: the race of the handshake against the spawn error has
  been won by a response (\<open>Inr\<close>) or by a rejection (\<open>Inl\<close>).\<close>

definition connect_settle ::
  "ACPClient \<Rightarrow> exn + InitializeResponse \<Rightarrow> InitializeResponse promise \<times> ACPClient"
where
  "connect_settle c raced =
     (case raced of
        Inr initResponse \<Rightarrow>
          (case setState c connected of
             (Some e, c1) \<Rightarrow> connect_catch c1 e
           | (None, c1) \<Rightarrow> (Resolved initResponse, c1))
      | Inl e \<Rightarrow> connect_catch c e)"

text \<open>
  A whole call of \<open>connect\<close> during which nothing else happens to the client. After the
  spawn, the agent answers the handshake, or the handshake fails, or the process emits
  \<open>error\<close>: then the first handler runs, and the second one rejects the race, unless a
  callback threw in the first and the event emitter never reached the second.
\<close>

datatype handshake =
    initialized InitializeResponse
  | initializeFailed exn
  | processFailed exn

definition connect ::
  "ACPClient \<Rightarrow> bool \<Rightarrow> exn + nat \<Rightarrow> handshake \<Rightarrow> InitializeResponse promise \<times> ACPClient"
where
  "connect c available spawned h =
     (case connect_begin c available spawned of
        (Pending, c1) \<Rightarrow>
          (case h of
             initialized initResponse \<Rightarrow> connect_settle c1 (Inr initResponse)
           | initializeFailed e \<Rightarrow> connect_settle c1 (Inl e)
           | processFailed err \<Rightarrow>
               (case onProcessError c1 err of
                  (Some e, c2) \<Rightarrow> (Pending, c2)
                | (None, c2) \<Rightarrow> connect_settle c2 (Inl (SpawnError err))))
      | r \<Rightarrow> r)"

subsection \<open>The callbacks the client gives to the protocol connection\<close>

definition allowKind :: "PermissionOption \<Rightarrow> bool" where
  "allowKind opt = (kind opt = ''allow_once'' \<or> kind opt = ''allow_always'')"

definition requestPermission ::
  "ACPClient \<Rightarrow> RequestPermissionRequest \<Rightarrow> RequestPermissionOutcome \<times> ACPClient"
where
  "requestPermission c params =
     (let c1 = c\<lparr>logger := logger_info (logger c) ''Permission request''\<rparr>
      in case find allowKind (options params) of
           Some allowOption \<Rightarrow>
             (selected (optionId allowOption),
              c1\<lparr>logger :=
                   logger_info (logger c1)
                     (''Auto-approving with option: '' @ optionId allowOption)\<rparr>)
         | None \<Rightarrow>
             (cancelled,
              c1\<lparr>logger := logger_warn (logger c1) ''No allow option found, cancelling''\<rparr>))"

text \<open>The metadata update of \<open>sessionUpdate\<close> for the commands of an
  \<open>available_commands_update\<close>.\<close>

definition storeCommands :: "ACPClient \<Rightarrow> AvailableCommand list \<Rightarrow> ACPClient" where
  "storeCommands c availableCommands =
     (let c1 = (case sessionMetadata c of
                  Some metadata \<Rightarrow>
                    c\<lparr>sessionMetadata := Some (metadata\<lparr>commands := Some availableCommands\<rparr>)\<rparr>
                | None \<Rightarrow> c\<lparr>pendingCommands := Some availableCommands\<rparr>)
      in c1\<lparr>logger :=
              logger_info (logger c1)
                (''Commands updated: '' @ show_nat (length availableCommands))\<rparr>)"

definition sessionUpdate :: "ACPClient \<Rightarrow> SessionNotification \<Rightarrow> unit promise \<times> ACPClient" where
  "sessionUpdate c params =
     (let updateType = (case update params of Some u \<Rightarrow> sessionUpdate_kind u | None \<Rightarrow> ''unknown'');
          c1 = c\<lparr>logger := logger_debug (logger c) (''Session update: '' @ updateType)\<rparr>;
          c2 = (if updateType = ''agent_message_chunk''
                then c1\<lparr>logger := logger_debug (logger c1) ''Chunk received''\<rparr>
                else c1);
          c3 = (case update params of
                  Some (available_commands_update availableCommands) \<Rightarrow>
                    storeCommands c2 availableCommands
                | _ \<Rightarrow> c2)
      in case forEach (sessionUpdateListeners c3) params (sessionUpdateCalls c3) of
           (None, calls) \<Rightarrow> (Resolved (), c3\<lparr>sessionUpdateCalls := calls\<rparr>)
         | (Some e, calls) \<Rightarrow>
             (Resolved (),
              c3\<lparr>sessionUpdateCalls := calls,
                 logger := logger_error (logger c3) ''Error in session update listener'' (Some e)\<rparr>))"

subsection \<open>Session operations\<close>

text \<open>
  Each of these calls awaits one request to the agent. The answer is a parameter: a
  response, or the error the request is rejected with. The call is modelled as one step:
  nothing else happens to the client between the request and its answer.
\<close>

definition NotConnected :: exn where
  "NotConnected = Exn ''Not connected''"

definition NoActiveSession :: exn where
  "NoActiveSession = Exn ''No active session''"

text \<open>\<open>!this.currentSessionId\<close>: \<open>null\<close> and the empty string are falsy.\<close>

definition noSession :: "ACPClient \<Rightarrow> bool" where
  "noSession c = (case currentSessionId c of None \<Rightarrow> True | Some sid \<Rightarrow> sid = [])"

definition newSession ::
  "ACPClient \<Rightarrow> string \<Rightarrow> exn + NewSessionResponse \<Rightarrow> NewSessionResponse promise \<times> ACPClient"
where
  "newSession c workingDirectory answer =
     (if connection c = None then (Rejected NotConnected, c)
      else case answer of
             Inl e \<Rightarrow> (Rejected e, c)
           | Inr response \<Rightarrow>
               (Resolved response,
                c\<lparr>currentSessionId := Some (sessionId response),
                  sessionMetadata :=
                    Some \<lparr>modes = responseModes response, models = responseModels response,
                          commands = pendingCommands c\<rparr>,
                  pendingCommands := None\<rparr>))"

definition setMode :: "ACPClient \<Rightarrow> string \<Rightarrow> exn option \<Rightarrow> unit promise \<times> ACPClient" where
  "setMode c newModeId answer =
     (if connection c = None \<or> noSession c then (Rejected NoActiveSession, c)
      else case answer of
             Some e \<Rightarrow> (Rejected e, c)
           | None \<Rightarrow>
               (Resolved (),
                case sessionMetadata c of
                  Some metadata \<Rightarrow>
                    (case modes metadata of
                       Some modeState \<Rightarrow>
                         c\<lparr>sessionMetadata :=
                             Some (metadata\<lparr>modes :=
                                     Some (modeState\<lparr>currentModeId := newModeId\<rparr>)\<rparr>)\<rparr>
                     | None \<Rightarrow> c)
                | None \<Rightarrow> c))"

definition setModel :: "ACPClient \<Rightarrow> string \<Rightarrow> exn option \<Rightarrow> unit promise \<times> ACPClient" where
  "setModel c newModelId answer =
     (if connection c = None \<or> noSession c then (Rejected NoActiveSession, c)
      else case answer of
             Some e \<Rightarrow> (Rejected e, c)
           | None \<Rightarrow>
               (Resolved (),
                case sessionMetadata c of
                  Some metadata \<Rightarrow>
                    (case models metadata of
                       Some modelState \<Rightarrow>
                         c\<lparr>sessionMetadata :=
                             Some (metadata\<lparr>models :=
                                     Some (modelState\<lparr>currentModelId := newModelId\<rparr>)\<rparr>)\<rparr>
                     | None \<Rightarrow> c)
                | None \<Rightarrow> c))"

definition sendMessage ::
  "ACPClient \<Rightarrow> string \<Rightarrow> exn + PromptResponse \<Rightarrow> PromptResponse promise \<times> ACPClient"
where
  "sendMessage c text answer =
     (if connection c = None \<or> noSession c then (Rejected NoActiveSession, c)
      else case answer of
             Inr response \<Rightarrow>
               (Resolved response, c\<lparr>logger := logger_debug (logger c) ''Prompt completed''\<rparr>)
           | Inl e \<Rightarrow>
               (Rejected e, c\<lparr>logger := logger_error (logger c) ''Prompt error'' (Some e)\<rparr>))"

definition cancel :: "ACPClient \<Rightarrow> exn option \<Rightarrow> unit promise \<times> ACPClient" where
  "cancel c answer =
     (if connection c = None \<or> noSession c then (Resolved (), c)
      else case answer of Some e \<Rightarrow> (Rejected e, c) | None \<Rightarrow> (Resolved (), c))"

subsection \<open>Runs of the client\<close>

text \<open>
  What can happen to a client, one step at a time: a call of one of its methods (with the
  environment's part of it), the continuation of a pending \<open>connect\<close>, an event of the
  child process, or a callback invoked by the protocol connection.
\<close>

datatype event =
    Connect bool "exn + nat"
  | ConnectSettled "exn + InitializeResponse"
  | ProcessError exn
  | ProcessExit "nat option"
  | StderrData string
  | SessionUpdateReceived SessionNotification
  | PermissionRequested RequestPermissionRequest
  | NewSession string "exn + NewSessionResponse"
  | SetMode string "exn option"
  | SetModel string "exn option"
  | SendMessage string "exn + PromptResponse"
  | Cancel "exn option"
  | Dispose
  | SetAgent AgentConfig
  | SetOnStateChange "ACPConnectionState callback"
  | UnsetOnStateChange "ACPConnectionState callback"
  | SetOnSessionUpdate "SessionNotification callback"
  | UnsetOnSessionUpdate "SessionNotification callback"
  | SetOnStderr "string callback"
  | UnsetOnStderr "string callback"

fun step :: "ACPClient \<Rightarrow> event \<Rightarrow> ACPClient" where
  "step c (Connect available spawned) = snd (connect_begin c available spawned)"
| "step c (ConnectSettled raced) = snd (connect_settle c raced)"
| "step c (ProcessError err) = snd (onProcessError c err)"
| "step c (ProcessExit code) = snd (onProcessExit c code)"
| "step c (StderrData text) = snd (onStderrData c text)"
| "step c (SessionUpdateReceived params) = snd (sessionUpdate c params)"
| "step c (PermissionRequested params) = snd (requestPermission c params)"
| "step c (NewSession workingDirectory answer) = snd (newSession c workingDirectory answer)"
| "step c (SetMode newModeId answer) = snd (setMode c newModeId answer)"
| "step c (SetModel newModelId answer) = snd (setModel c newModelId answer)"
| "step c (SendMessage text answer) = snd (sendMessage c text answer)"
| "step c (Cancel answer) = snd (cancel c answer)"
| "step c Dispose = snd (dispose c)"
| "step c (SetAgent config) = snd (setAgent c config)"
| "step c (SetOnStateChange cb) = setOnStateChange c cb"
| "step c (UnsetOnStateChange cb) = unsetOnStateChange c cb"
| "step c (SetOnSessionUpdate cb) = setOnSessionUpdate c cb"
| "step c (UnsetOnSessionUpdate cb) = unsetOnSessionUpdate c cb"
| "step c (SetOnStderr cb) = setOnStderr c cb"
| "step c (UnsetOnStderr cb) = unsetOnStderr c cb"

definition run :: "ACPClient \<Rightarrow> event list \<Rightarrow> ACPClient" where
  "run c evs = foldl step c evs"

text \<open>The events that register a state-change callback which can throw.\<close>

definition neverThrows :: "ACPConnectionState callback \<Rightarrow> bool" where
  "neverThrows cb =
     (cbThrows cb disconnected = None \<and> cbThrows cb connecting = None \<and>
      cbThrows cb connected = None \<and> cbThrows cb error = None)"

fun registersThrowing :: "event \<Rightarrow> bool" where
  "registersThrowing (SetOnStateChange cb) = (\<not> neverThrows cb)"
| "registersThrowing _ = False"

text \<open>One call to each callback of a set, in order.\<close>

definition callEach :: "'a callback list \<Rightarrow> 'a \<Rightarrow> (nat \<times> 'a) list" where
  "callEach cbs x = map (\<lambda>cb. (cbId cb, x)) cbs"

text \<open>No registered state-change callback throws.\<close>

definition quiet :: "ACPClient \<Rightarrow> bool" where
  "quiet c = (\<forall>cb \<in> set (stateChangeListeners c). neverThrows cb)"



text \<open>Two clients that show the same to state-change callbacks.\<close>

definition sameView :: "ACPClient \<Rightarrow> ACPClient \<Rightarrow> bool" where
  "sameView c c' =
     (state c' = state c \<and> stateChangeListeners c' = stateChangeListeners c \<and>
      stateChangeCalls c' = stateChangeCalls c)"

text \<open>
  A step resets the session when it changes the session identifier, creates or drops the
  metadata, or empties a filled pending-commands slot.
\<close>

definition resets :: "ACPClient \<Rightarrow> ACPClient \<Rightarrow> bool" where
  "resets c c' =
     (currentSessionId c' \<noteq> currentSessionId c \<or>
      (sessionMetadata c = None) \<noteq> (sessionMetadata c' = None) \<or>
      (pendingCommands c \<noteq> None \<and> pendingCommands c' = None))"

text \<open>
  The invariant of the handles: no state-change callback throws, the process and the
  connection are there together or not at all, in state \<open>disconnected\<close> they are not
  there, and in state \<open>connecting\<close> they are.
\<close>

definition handlesInv :: "ACPClient \<Rightarrow> bool" where
  "handlesInv c =
     (quiet c \<and> (process c = None \<longleftrightarrow> connection c = None) \<and>
      (state c = disconnected \<longrightarrow> process c = None) \<and>
      (state c = connecting \<longrightarrow> process c \<noteq> None))"

text \<open>
  The invariant of what state-change callbacks see: the callbacks are distinct, no
  callback has been called twice in a row with the same state, and a callback that has
  been called is registered and was last called with the current state.
\<close>

definition noRepeats ::
  "ACPConnectionState callback list \<Rightarrow> ACPConnectionState \<Rightarrow> (nat \<times> ACPConnectionState) list \<Rightarrow> bool"
where
  "noRepeats cbs st calls =
     (distinct (map cbId cbs) \<and>
      (\<forall>i. distinct_adj (received i calls) \<and>
           (received i calls \<noteq> [] \<longrightarrow> i \<in> cbId ` set cbs \<and> last (received i calls) = st)))"

definition seenInv :: "ACPClient \<Rightarrow> bool" where
  "seenInv c = (quiet c \<and> noRepeats (stateChangeListeners c) (state c) (stateChangeCalls c))"

subsection \<open>Example clients\<close>

definition echoAgent :: AgentConfig where
  "echoAgent = \<lparr>agentId = ''echo'', agentName = ''Echo'', command = ''echo-agent'', args = [''--acp'']\<rparr>"

definition quietLogger :: Logger where
  "quietLogger = \<lparr>level = Info, outputChannel = []\<rparr>"

definition freshClient :: ACPClient where
  "freshClient = new_ACPClient echoAgent quietLogger no_argument"

definition observer :: "nat \<Rightarrow> 'a callback" where
  "observer i = \<lparr>cbId = i, cbThrows = (\<lambda>_. None)\<rparr>"

definition thrower :: "nat \<Rightarrow> 'a callback" where
  "thrower i = \<lparr>cbId = i, cbThrows = (\<lambda>_. Some (Exn ''broken observer''))\<rparr>"


definition pendingClient :: ACPClient where
  "pendingClient = run freshClient [SetOnStateChange (observer 1), Connect True (Inr 7)]"

definition connectedClient :: ACPClient where
  "connectedClient =
     run freshClient
       [SetOnStateChange (observer 1), Connect True (Inr 7),
        ConnectSettled (Inr \<lparr>protocolVersion = 1\<rparr>)]"

definition sessionClient :: ACPClient where
  "sessionClient =
     step connectedClient
       (NewSession ''/w''
          (Inr \<lparr>sessionId = ''s1'',
                responseModes =
                  Some \<lparr>availableModes = [\<lparr>modeId = ''ask'', modeName = ''Ask''\<rparr>,
                                          \<lparr>modeId = ''plan'', modeName = ''Plan''\<rparr>],
                        currentModeId = ''ask''\<rparr>,
                responseModels = None\<rparr>))"


definition twoListenerClient :: ACPClient where
  "twoListenerClient =
     run connectedClient [SetOnSessionUpdate (thrower 1), SetOnSessionUpdate (observer 2)]"

definition helloChunk :: SessionNotification where
  "helloChunk = \<lparr>notificationSessionId = ''s1'', update = Some (agent_message_chunk ''hi'')\<rparr>"

section \<open>Properties of the matcher\<close>

lemma matcher_reaches_continuation:
  "matcher r s c k = Some res \<Longrightarrow>
     \<exists>s' c'. k s' c' = Some res \<and> (\<forall>n. n \<in> sets_groups r \<or> c n \<noteq> None \<longrightarrow> c' n \<noteq> None)"
proof (induction r s c k rule: matcher.induct)
  case (1 s c k)
  then show ?case by auto
next
  case (2 p s c k)
  then show ?case by (auto split: list.splits if_splits)
next
  case (3 a b s c k)
  from "3.IH"(2) "3.prems" obtain s1 c1 where
    b: "matcher b s1 c1 k = Some res" and
    c1: "\<forall>n. n \<in> sets_groups a \<or> c n \<noteq> None \<longrightarrow> c1 n \<noteq> None"
    by auto
  from "3.IH"(1) [OF b] obtain s2 c2 where
    "k s2 c2 = Some res" "\<forall>n. n \<in> sets_groups b \<or> c1 n \<noteq> None \<longrightarrow> c2 n \<noteq> None"
    by auto
  with c1 show ?case by (intro exI [of _ s2] exI [of _ c2]) auto
next
  case (4 a s c k)
  show ?case
  proof (cases "matcher a s c (\<lambda>s' c'. if length s' < length s then k s' c' else None)")
    case None
    with "4.prems" have "k s c = Some res" by simp
    then show ?thesis by auto
  next
    case (Some r)
    with "4.prems" have "r = res" by simp
    with Some "4.IH" obtain s1 c1 where
      "(if length s1 < length s then k s1 c1 else None) = Some res"
      "\<forall>n. n \<in> sets_groups a \<or> c n \<noteq> None \<longrightarrow> c1 n \<noteq> None"
      by blast
    then show ?thesis by (intro exI [of _ s1] exI [of _ c1]) (auto split: if_splits)
  qed
next
  case (5 a s c k)
  show ?case
  proof (cases "matcher a s c (\<lambda>s' c'. if length s' < length s then matcher (Star a) s' c' k else None)")
    case None
    with "5.prems" have "k s c = Some res" by simp
    then show ?thesis by auto
  next
    case (Some r)
    with "5.prems" have "r = res" by simp
    with Some "5.IH"(2) obtain s1 c1 where
      s1: "(if length s1 < length s then matcher (Star a) s1 c1 k else None) = Some res" and
      c1: "\<forall>n. n \<in> sets_groups a \<or> c n \<noteq> None \<longrightarrow> c1 n \<noteq> None"
      by blast
    from s1 have lt: "length s1 < length s" and m: "matcher (Star a) s1 c1 k = Some res"
      by (auto split: if_splits)
    from "5.IH"(1) [OF lt m] obtain s2 c2 where
      "k s2 c2 = Some res" "\<forall>n. n \<in> sets_groups (Star a) \<or> c1 n \<noteq> None \<longrightarrow> c2 n \<noteq> None"
      by blast
    with c1 show ?thesis by (intro exI [of _ s2] exI [of _ c2]) auto
  qed
next
  case (6 n a s c k)
  from "6.IH" "6.prems" obtain s1 c1 where
    k: "k s1 (c1(n \<mapsto> take (length s - length s1) s)) = Some res" and
    c1: "\<forall>m. m \<in> sets_groups a \<or> c m \<noteq> None \<longrightarrow> c1 m \<noteq> None"
    by auto
  define c2 where "c2 = c1(n \<mapsto> take (length s - length s1) s)"
  from c1 have "\<forall>m. m \<in> sets_groups (Group n a) \<or> c m \<noteq> None \<longrightarrow> c2 m \<noteq> None"
    by (simp add: c2_def)
  moreover from k have "k s1 c2 = Some res"
    by (simp add: c2_def)
  ultimately show ?case by blast
qed

lemma sets_groups_lit: "sets_groups (lit cs) = {}"
  by (induction cs) simp_all

lemma match_here_groups:
  "match_here r s = Some c \<Longrightarrow> n \<in> sets_groups r \<Longrightarrow> c n \<noteq> None"
  unfolding match_here_def by (drule matcher_reaches_continuation) auto

lemma js_match_groups:
  "js_match r s = Some c \<Longrightarrow> n \<in> sets_groups r \<Longrightarrow> c n \<noteq> None"
  by (induction s) (auto split: option.splits dest: match_here_groups)

lemma sets_groups_errorPattern: "sets_groups errorPattern = {1, 3}"
  by (auto simp: errorPattern_def Plus_def sets_groups_lit)

lemma sets_groups_fieldPattern: "sets_groups (fieldPattern name) = {1}"
  by (auto simp: fieldPattern_def Plus_def sets_groups_lit)

lemma match_here_errorPattern_Nil: "match_here errorPattern [] = None"
  by (simp add: match_here_def errorPattern_def Plus_def)

lemma match_here_errorPattern_nonword:
  "\<not> word_char x \<Longrightarrow> match_here errorPattern (x # xs) = None"
  by (simp add: match_here_def errorPattern_def Plus_def)

lemma js_match_errorPattern_nonword:
  "\<forall>x \<in> set s. \<not> word_char x \<Longrightarrow> js_match errorPattern s = None"
  by (induction s) (simp_all add: match_here_errorPattern_Nil match_here_errorPattern_nonword)

lemma js_match_prefix:
  "js_match errorPattern (''AError: data: {a}'' @ tail) = Some ((\<lambda>_. None)(1 \<mapsto> ''AError'', 3 \<mapsto> ''a''))"
  by (simp add: errorPattern_def match_here_def Plus_def word_char_def space_char_def newline_def)


lemma js_match_errorPattern_defined:
  assumes "js_match errorPattern s = Some m"
  obtains errorType errorData where "m 1 = Some errorType" "m 3 = Some errorData"
proof -
  from assms have "m 1 \<noteq> None" "m 3 \<noteq> None"
    by (auto dest: js_match_groups simp: sets_groups_errorPattern)
  then show thesis using that by auto
qed

lemma js_match_fieldPattern_defined:
  assumes "js_match (fieldPattern name) s = Some m"
  obtains v where "m 1 = Some v"
proof -
  from assms have "m 1 \<noteq> None"
    by (auto dest: js_match_groups simp: sets_groups_fieldPattern)
  then show thesis using that by auto
qed

subsection \<open>The matcher finds exactly what the patterns mean\<close>

inductive_simps spans_Atom_iff: "spans (Atom p) w c c'"
inductive_simps spans_Opt_iff: "spans (Opt a) w c c'"










lemma spans_Opt_Atom:
  "spans (Opt (Atom p)) w c c' \<longleftrightarrow> (w = [] \<or> (\<exists>x. w = [x] \<and> p x)) \<and> c' = c"
  by (auto simp: spans_Opt_iff spans_Atom_iff)














subsection \<open>The field patterns and the direct scan\<close>
















section \<open>Properties of the diagnostic stream classifier\<close>

lemma truncateBuffer_empty: "truncateBuffer (p\<lparr>stderrBuffer := []\<rparr>) = p\<lparr>stderrBuffer := []\<rparr>"
  by (simp add: truncateBuffer_def)

lemma handleStderr_match:
  assumes "js_match errorPattern (stderrBuffer p @ text) = Some m" and "m 3 = Some errorData"
  shows "handleStderr p text =
           Inr ((postMessage (p\<lparr>stderrBuffer := stderrBuffer p @ text\<rparr>)
                   [(''type'', ''agentError''), (''text'', classification (m 1) errorData)])
                \<lparr>stderrBuffer := []\<rparr>)"
  using assms by (simp add: handleStderr_def truncateBuffer_empty)

lemma handleStderr_no_match:
  assumes "js_match errorPattern (stderrBuffer p @ text) = None"
  shows "handleStderr p text = Inr (truncateBuffer (p\<lparr>stderrBuffer := stderrBuffer p @ text\<rparr>))"
  using assms by (simp add: handleStderr_def)






lemma handleStderr_returns: "\<exists>p'. handleStderr p text = Inr p'"
proof (cases "js_match errorPattern (stderrBuffer p @ text)")
  case None
  then show ?thesis by (simp add: handleStderr_no_match)
next
  case (Some m)
  then obtain errorType errorData where "m 1 = Some errorType" "m 3 = Some errorData"
    by (rule js_match_errorPattern_defined)
  with Some show ?thesis by (simp add: handleStderr_match)
qed

lemma length_slice_last: "length (slice_last k s) = min k (length s)"
  by (simp add: slice_last_def)

lemma truncateBuffer_bound: "length (stderrBuffer (truncateBuffer p)) \<le> 10000"
  by (simp add: truncateBuffer_def length_slice_last)

lemma handleStderr_error_first:
  "handleStderr \<lparr>view = True, stderrBuffer = [], webviewMessages = []\<rparr> (''AError: data: {a}'' @ tail) =
     Inr \<lparr>view = True, stderrBuffer = [],
          webviewMessages = [[(''type'', ''agentError''), (''text'', ''Agent error: AError'')]]\<rparr>"
proof -
  have "classification (Some ''AError'') ''a'' = ''Agent error: AError''"
    by (simp add: classification_def providerPattern_def modelPattern_def fieldPattern_def
      match_here_def Plus_def space_char_def template_def)
  with handleStderr_match
         [of "\<lparr>view = True, stderrBuffer = [], webviewMessages = []\<rparr>" "''AError: data: {a}'' @ tail"
             "(\<lambda>_. None)(1 \<mapsto> ''AError'', 3 \<mapsto> ''a'')" "''a''"]
       js_match_prefix [of tail]
  show ?thesis by (simp add: postMessage_def)
qed




text \<open>
  C8, as amended. Every observation returns, and leaves at most 10000 characters in the
  buffer. When the accumulated text has more than 10000 characters and does not match the
  error pattern, the buffer keeps exactly its last 5000 characters; when it does not match
  and is no longer than 10000, all of it is kept; and when it matches, the buffer is
  emptied, whatever its length.
\<close>

theorem handleStderr_buffer_bound:
  "\<exists>p'. handleStderr p text = Inr p' \<and>
      length (stderrBuffer p') \<le> 10000 \<and>
      (js_match errorPattern (stderrBuffer p @ text) = None \<and>
       length (stderrBuffer p @ text) > 10000 \<longrightarrow>
         stderrBuffer p' = slice_last 5000 (stderrBuffer p @ text) \<and>
         length (stderrBuffer p') = 5000) \<and>
      (js_match errorPattern (stderrBuffer p @ text) = None \<and>
       length (stderrBuffer p @ text) \<le> 10000 \<longrightarrow>
         stderrBuffer p' = stderrBuffer p @ text) \<and>
      (js_match errorPattern (stderrBuffer p @ text) \<noteq> None \<longrightarrow> stderrBuffer p' = [])"
proof (cases "js_match errorPattern (stderrBuffer p @ text)")
  case None
  then show ?thesis
    by (simp add: handleStderr_no_match truncateBuffer_def length_slice_last)
next
  case (Some m)
  then obtain errorType errorData where "m 1 = Some errorType" "m 3 = Some errorData"
    by (rule js_match_errorPattern_defined)
  with Some show ?thesis by (simp add: handleStderr_match)
qed

theorem handleStderr_buffer_bound_witness:
  "js_match errorPattern
     (stderrBuffer \<lparr>view = True, stderrBuffer = replicate 10000 CHR '' '', webviewMessages = []\<rparr> @
      '' '') = None \<and>
   length (stderrBuffer \<lparr>view = True, stderrBuffer = replicate 10000 CHR '' '', webviewMessages = []\<rparr> @
      '' '') > 10000 \<and>
   js_match errorPattern
     (stderrBuffer \<lparr>view = True, stderrBuffer = ''AError: data: {'', webviewMessages = []\<rparr> @ ''a}'') \<noteq> None \<and>
   (\<exists>p'. handleStderr \<lparr>view = True, stderrBuffer = replicate 10000 CHR '' '', webviewMessages = []\<rparr> '' '' = Inr p' \<and>
      length (stderrBuffer p') = 5000) \<and>
   (\<exists>p'. handleStderr \<lparr>view = True, stderrBuffer = ''AError: data: {'', webviewMessages = []\<rparr> ''a}'' = Inr p' \<and>
      stderrBuffer p' = [])"
proof -
  define p1 where "p1 = \<lparr>view = True, stderrBuffer = replicate 10000 CHR '' '', webviewMessages = []\<rparr>"
  define p2 where "p2 = \<lparr>view = True, stderrBuffer = ''AError: data: {'', webviewMessages = []\<rparr>"
  have a: "js_match errorPattern (stderrBuffer p1 @ '' '') = None"
    unfolding p1_def by (rule js_match_errorPattern_nonword) (auto simp: word_char_def)
  have l: "length (stderrBuffer p1 @ '' '') > 10000"
    by (simp add: p1_def)
  have b: "js_match errorPattern (stderrBuffer p2 @ ''a}'') \<noteq> None"
    using js_match_prefix [of "[]"] by (simp add: p2_def)
  from handleStderr_buffer_bound [of p1 "'' ''"] a l
  have c: "\<exists>p'. handleStderr p1 '' '' = Inr p' \<and> length (stderrBuffer p') = 5000"
    by blast
  from handleStderr_buffer_bound [of p2 "''a}''"] b
  have d: "\<exists>p'. handleStderr p2 ''a}'' = Inr p' \<and> stderrBuffer p' = []"
    by blast
  from a l b c d show ?thesis
    unfolding p1_def p2_def by blast
qed

text \<open>
  C8 as stated fails: a chunk of 10017 characters that starts with an error report is
  longer than 10000, and the buffer is empty afterwards, not the last 5000 characters.
\<close>

theorem handleStderr_truncation_counterexample:
  "length (''AError: data: {a}'' @ replicate 10000 CHR ''x'') > 10000 \<and>
   handleStderr \<lparr>view = True, stderrBuffer = [], webviewMessages = []\<rparr>
       (''AError: data: {a}'' @ replicate 10000 CHR ''x'') =
     Inr \<lparr>view = True, stderrBuffer = [],
          webviewMessages = [[(''type'', ''agentError''), (''text'', ''Agent error: AError'')]]\<rparr> \<and>
   slice_last 5000 (''AError: data: {a}'' @ replicate 10000 CHR ''x'') \<noteq> []"
proof (intro conjI)
  show "length (''AError: data: {a}'' @ replicate 10000 CHR ''x'') > 10000"
    by simp
  show "handleStderr \<lparr>view = True, stderrBuffer = [], webviewMessages = []\<rparr>
       (''AError: data: {a}'' @ replicate 10000 CHR ''x'') =
     Inr \<lparr>view = True, stderrBuffer = [],
          webviewMessages = [[(''type'', ''agentError''), (''text'', ''Agent error: AError'')]]\<rparr>"
    by (rule handleStderr_error_first)
  have "length (slice_last 5000 (''AError: data: {a}'' @ replicate 10000 CHR ''x'')) = 5000"
    by (simp add: length_slice_last)
  then show "slice_last 5000 (''AError: data: {a}'' @ replicate 10000 CHR ''x'') \<noteq> []"
    by auto
qed

section \<open>Properties of the client\<close>

subsection \<open>Basic facts\<close>

lemmas client_defs =
  freshClient_def new_ACPClient_def echoAgent_def quietLogger_def observer_def thrower_def
  connectedClient_def run_def connect_begin_def connect_settle_def connect_catch_def
  setState_def setOnStateChange_def set_add_def setOnSessionUpdate_def
  newSession_def sessionUpdate_def storeCommands_def setMode_def noSession_def
  logger_log_def logger_debug_def logger_info_def logger_warn_def logger_error_def
  getSessionMetadata_def onProcessExit_def dispose_def

lemma setState_fst:
  "fst (setState c st) =
     (if state c \<noteq> st then fst (forEach (stateChangeListeners c) st (stateChangeCalls c)) else None)"
  by (simp add: setState_def split: prod.splits)

lemma setState_snd:
  "snd (setState c st) =
     (if state c \<noteq> st
      then c\<lparr>state := st,
             stateChangeCalls := snd (forEach (stateChangeListeners c) st (stateChangeCalls c))\<rparr>
      else c)"
  by (simp add: setState_def split: prod.splits)


lemma run_Cons: "run c (e # evs) = run (step c e) evs"
  by (simp add: run_def)

lemma run_Nil: "run c [] = c"
  by (simp add: run_def)

lemma run_append: "run c (evs @ evs') = run (run c evs) evs'"
  by (simp add: run_def)

lemma forEach_quiet:
  "\<forall>cb \<in> set cbs. cbThrows cb x = None \<Longrightarrow>
     forEach cbs x calls = (None, calls @ map (\<lambda>cb. (cbId cb, x)) cbs)"
  by (induction cbs arbitrary: calls) simp_all

lemma forEach_stops:
  "\<forall>cb \<in> set cbs. cbThrows cb x = None \<Longrightarrow> cbThrows broken x = Some e \<Longrightarrow>
     forEach (cbs @ broken # others) x calls =
       (Some e, calls @ map (\<lambda>cb. (cbId cb, x)) (cbs @ [broken]))"
  by (induction cbs arbitrary: calls) simp_all

lemma forEach_callEach:
  "\<forall>cb \<in> set cbs. cbThrows cb x = None \<Longrightarrow> forEach cbs x calls = (None, calls @ callEach cbs x)"
  by (simp add: forEach_quiet callEach_def)

lemma received_append: "received i (xs @ ys) = received i xs @ received i ys"
  by (simp add: received_def)

lemma received_others:
  "i \<notin> cbId ` set cbs \<Longrightarrow> received i (map (\<lambda>cb. (cbId cb, x)) cbs) = []"
  by (induction cbs) (auto simp: received_def)

lemma received_callEach:
  assumes "distinct (map cbId cbs)"
  shows "received i (callEach cbs x) = (if i \<in> cbId ` set cbs then [x] else [])"
  using assms by (induction cbs) (auto simp: received_def callEach_def)

lemma neverThrows_None: "neverThrows cb \<Longrightarrow> cbThrows cb st = None"
  by (cases st) (simp_all add: neverThrows_def)

lemma setState_quiet:
  assumes "quiet c"
  shows "setState c st =
           (None,
            if state c \<noteq> st
            then c\<lparr>state := st,
                   stateChangeCalls := stateChangeCalls c @ callEach (stateChangeListeners c) st\<rparr>
            else c)"
proof -
  from assms have "\<forall>cb \<in> set (stateChangeListeners c). cbThrows cb st = None"
    by (simp add: quiet_def neverThrows_None)
  then show ?thesis
    by (simp add: setState_def forEach_callEach)
qed

lemma quiet_update [simp]:
  "quiet (c\<lparr>state := st\<rparr>) = quiet c"
  "quiet (c\<lparr>stateChangeCalls := calls\<rparr>) = quiet c"
  "quiet (c\<lparr>process := p\<rparr>) = quiet c"
  "quiet (c\<lparr>connection := p\<rparr>) = quiet c"
  "quiet (c\<lparr>logger := lg\<rparr>) = quiet c"
  "quiet (c\<lparr>currentSessionId := sid\<rparr>) = quiet c"
  "quiet (c\<lparr>sessionMetadata := md\<rparr>) = quiet c"
  "quiet (c\<lparr>pendingCommands := pc\<rparr>) = quiet c"
  "quiet (c\<lparr>killed := ks\<rparr>) = quiet c"
  "quiet (c\<lparr>agentConfig := cfg\<rparr>) = quiet c"
  "quiet (c\<lparr>sessionUpdateCalls := sc\<rparr>) = quiet c"
  "quiet (c\<lparr>stderrCalls := ec\<rparr>) = quiet c"
  "quiet (c\<lparr>sessionUpdateListeners := sl\<rparr>) = quiet c"
  "quiet (c\<lparr>stderrListeners := el\<rparr>) = quiet c"
  by (simp_all add: quiet_def)

subsection \<open>The permission policy\<close>



subsection \<open>Session updates\<close>

lemma sessionUpdate_fields:
  "connection (snd (sessionUpdate c params)) = connection c"
  "state (snd (sessionUpdate c params)) = state c"
  "process (snd (sessionUpdate c params)) = process c"
  "currentSessionId (snd (sessionUpdate c params)) = currentSessionId c"
  by (simp_all add: sessionUpdate_def storeCommands_def Let_def
        split: option.splits SessionUpdate.splits prod.splits)

lemma sessionUpdate_state_calls:
  "stateChangeListeners (snd (sessionUpdate c params)) = stateChangeListeners c"
  "stateChangeCalls (snd (sessionUpdate c params)) = stateChangeCalls c"
  by (simp_all add: sessionUpdate_def storeCommands_def Let_def
        split: option.splits SessionUpdate.splits prod.splits)

lemma sessionUpdate_pending:
  "sessionMetadata c = None \<Longrightarrow> update params = Some (available_commands_update cmds) \<Longrightarrow>
     pendingCommands (snd (sessionUpdate c params)) = Some cmds \<and>
     sessionMetadata (snd (sessionUpdate c params)) = None"
  by (simp add: sessionUpdate_def storeCommands_def Let_def split: prod.splits option.splits)

lemma sessionUpdate_listeners:
  "sessionUpdateListeners (snd (sessionUpdate c params)) = sessionUpdateListeners c"
  by (simp add: sessionUpdate_def storeCommands_def Let_def
        split: option.splits SessionUpdate.splits prod.splits)

lemma sessionUpdate_calls:
  "sessionUpdateCalls (snd (sessionUpdate c params)) =
     snd (forEach (sessionUpdateListeners c) params (sessionUpdateCalls c))"
  by (simp add: sessionUpdate_def storeCommands_def Let_def
        split: option.splits SessionUpdate.splits prod.splits)

lemma sessionUpdate_resolves: "fst (sessionUpdate c params) = Resolved ()"
  by (simp add: sessionUpdate_def Let_def split: option.splits prod.splits)

text \<open>
  C1. What the code does when a session-update callback throws: the callbacks registered
  before it have been called, it has been called, and the loop ends there, so that no
  callback registered after it is called with this notification. The call of
  \<open>sessionUpdate\<close> itself resolves: the exception does not reach the agent.
\<close>

theorem sessionUpdate_stops_at_thrower:
  assumes "sessionUpdateListeners c = cbs @ broken # others"
    and "\<forall>cb \<in> set cbs. cbThrows cb params = None"
    and "cbThrows broken params = Some e"
  shows "fst (sessionUpdate c params) = Resolved () \<and>
         sessionUpdateCalls (snd (sessionUpdate c params)) =
           sessionUpdateCalls c @ callEach (cbs @ [broken]) params \<and>
         (\<forall>cb \<in> set others. cbId cb \<notin> cbId ` set (cbs @ [broken]) \<longrightarrow>
            received (cbId cb) (sessionUpdateCalls (snd (sessionUpdate c params))) =
              received (cbId cb) (sessionUpdateCalls c))"
proof -
  from assms have calls: "sessionUpdateCalls (snd (sessionUpdate c params)) =
           sessionUpdateCalls c @ callEach (cbs @ [broken]) params"
    by (simp add: sessionUpdate_calls forEach_stops callEach_def)
  have "received (cbId cb) (sessionUpdateCalls (snd (sessionUpdate c params))) =
              received (cbId cb) (sessionUpdateCalls c)"
    if "cbId cb \<notin> cbId ` set (cbs @ [broken])" for cb :: "SessionNotification callback"
    unfolding calls received_append callEach_def using received_others [OF that] by simp
  with calls show ?thesis
    by (simp add: sessionUpdate_resolves)
qed

theorem sessionUpdate_stops_at_thrower_witness:
  "sessionUpdateListeners twoListenerClient = [] @ thrower 1 # [observer 2] \<and>
   cbThrows (thrower 1) helloChunk = Some (Exn ''broken observer'') \<and>
   sessionUpdateCalls twoListenerClient = [] \<and>
   fst (sessionUpdate twoListenerClient helloChunk) = Resolved () \<and>
   sessionUpdateCalls (snd (sessionUpdate twoListenerClient helloChunk)) = [(1, helloChunk)] \<and>
   received 2 (sessionUpdateCalls (snd (sessionUpdate twoListenerClient helloChunk))) = []"
proof -
  have l: "sessionUpdateListeners twoListenerClient = [] @ thrower 1 # [observer 2]"
    by (simp add: twoListenerClient_def client_defs)
  have q: "\<forall>cb \<in> set []. cbThrows cb helloChunk = None"
    by simp
  have t: "cbThrows (thrower 1) helloChunk = Some (Exn ''broken observer'')"
    by (simp add: thrower_def)
  have e: "sessionUpdateCalls twoListenerClient = []"
    by (simp add: twoListenerClient_def client_defs)
  from sessionUpdate_stops_at_thrower [OF l q t] l t e show ?thesis
    by (simp add: thrower_def observer_def received_def callEach_def)
qed

text \<open>
  C5. A commands update that arrives while there is no metadata is stored in the
  pending-commands slot. When \<open>newSession\<close> then completes on an open connection, the
  metadata has these commands, the modes and models of the response, and the slot is
  empty.
\<close>

theorem pending_commands_merged:
  assumes "sessionMetadata c = None"
    and "update params = Some (available_commands_update cmds)"
  shows "pendingCommands (snd (sessionUpdate c params)) = Some cmds \<and>
         (connection c \<noteq> None \<longrightarrow>
            (\<exists>c'. newSession (snd (sessionUpdate c params)) workingDirectory (Inr response) =
                     (Resolved response, c') \<and>
                   getSessionMetadata c' =
                     Some \<lparr>modes = responseModes response, models = responseModels response,
                           commands = Some cmds\<rparr> \<and>
                   pendingCommands c' = None \<and>
                   currentSessionId c' = Some (sessionId response)))"
  using sessionUpdate_pending [OF assms]
  by (simp add: newSession_def sessionUpdate_fields getSessionMetadata_def)

theorem pending_commands_merged_witness:
  "sessionMetadata connectedClient = None \<and> connection connectedClient \<noteq> None \<and>
   pendingCommands
     (snd (sessionUpdate connectedClient
        \<lparr>notificationSessionId = ''s1'',
          update = Some (available_commands_update [\<lparr>commandName = ''init'', commandDescription = ''set up''\<rparr>])\<rparr>)) =
     Some [\<lparr>commandName = ''init'', commandDescription = ''set up''\<rparr>] \<and>
   (\<exists>c'. newSession
            (snd (sessionUpdate connectedClient
               \<lparr>notificationSessionId = ''s1'',
                 update = Some (available_commands_update [\<lparr>commandName = ''init'', commandDescription = ''set up''\<rparr>])\<rparr>))
            ''/w'' (Inr \<lparr>sessionId = ''s1'', responseModes = None, responseModels = None\<rparr>) =
            (Resolved \<lparr>sessionId = ''s1'', responseModes = None, responseModels = None\<rparr>, c') \<and>
          getSessionMetadata c' =
            Some \<lparr>modes = None, models = None,
                  commands = Some [\<lparr>commandName = ''init'', commandDescription = ''set up''\<rparr>]\<rparr> \<and>
          pendingCommands c' = None)"
proof -
  have a: "sessionMetadata connectedClient = None" "connection connectedClient \<noteq> None"
    by (simp_all add: client_defs)
  have u: "update \<lparr>notificationSessionId = ''s1'',
          update = Some (available_commands_update [\<lparr>commandName = ''init'', commandDescription = ''set up''\<rparr>])\<rparr> =
       Some (available_commands_update [\<lparr>commandName = ''init'', commandDescription = ''set up''\<rparr>])"
    by simp
  from pending_commands_merged [OF a(1) u, of "''/w''" "\<lparr>sessionId = ''s1'', responseModes = None, responseModels = None\<rparr>"] a
  show ?thesis by auto
qed

subsection \<open>setMode\<close>




subsection \<open>connect\<close>

lemma connect_begin_active:
  "state c = connecting \<or> state c = connected \<Longrightarrow>
     connect_begin c available spawned = (Rejected AlreadyActive, c)"
  by (auto simp: connect_begin_def)

lemma connect_catch_quiet:
  "quiet c \<Longrightarrow>
     connect_catch c e =
       (Rejected e,
        if state c \<noteq> error
        then c\<lparr>state := error,
               stateChangeCalls := stateChangeCalls c @ callEach (stateChangeListeners c) error\<rparr>
        else c)"
  by (simp add: connect_catch_def setState_quiet)






text \<open>
  C6. A call of \<open>connect\<close> in state \<open>connecting\<close> or \<open>connected\<close> is rejected with the error
  \<open>Already connected or connecting\<close> and leaves the client as it was: no state change and
  no call to a callback. So does every sequence of such calls.
\<close>

theorem connect_while_active:
  assumes "state c = connecting \<or> state c = connected"
  shows "connect c available spawned h = (Rejected (Exn ''Already connected or connecting''), c) \<and>
         (\<forall>calls. run c (map (\<lambda>call. Connect (fst call) (snd call)) calls) = c)"
proof
  from assms show "connect c available spawned h = (Rejected (Exn ''Already connected or connecting''), c)"
    by (simp add: connect_def connect_begin_active AlreadyActive_def [symmetric])
  show "\<forall>calls. run c (map (\<lambda>call. Connect (fst call) (snd call)) calls) = c"
  proof
    fix calls
    show "run c (map (\<lambda>call. Connect (fst call) (snd call)) calls) = c"
      using assms by (induction calls) (simp_all add: run_Nil run_Cons connect_begin_active)
  qed
qed

theorem connect_while_active_witness:
  "state pendingClient = connecting \<and>
   stateChangeCalls pendingClient = [(1, connecting)] \<and>
   connect pendingClient True (Inr 8) (initialized \<lparr>protocolVersion = 1\<rparr>) =
     (Rejected (Exn ''Already connected or connecting''), pendingClient) \<and>
   run pendingClient [Connect True (Inr 8), Connect False (Inr 9)] = pendingClient"
proof -
  have s: "state pendingClient = connecting"
    by (simp add: pendingClient_def client_defs)
  have c: "stateChangeCalls pendingClient = [(1, connecting)]"
    by (simp add: pendingClient_def client_defs)
  from s have a: "state pendingClient = connecting \<or> state pendingClient = connected"
    by simp
  from connect_while_active [OF a, of True "Inr 8" "initialized \<lparr>protocolVersion = 1\<rparr>"]
  have "connect pendingClient True (Inr 8) (initialized \<lparr>protocolVersion = 1\<rparr>) =
     (Rejected (Exn ''Already connected or connecting''), pendingClient)"
    and r: "\<forall>calls. run pendingClient (map (\<lambda>call. Connect (fst call) (snd call)) calls) = pendingClient"
    by blast+
  moreover from r [rule_format, of "[(True, Inr 8), (False, Inr 9)]"]
  have "run pendingClient [Connect True (Inr 8), Connect False (Inr 9)] = pendingClient"
    by simp
  ultimately show ?thesis using s c by blast
qed

subsection \<open>Exit of the process\<close>

lemma onProcessExit_frame:
  "state (snd (onProcessExit c code)) = disconnected"
  "currentSessionId (snd (onProcessExit c code)) = currentSessionId c"
  "sessionMetadata (snd (onProcessExit c code)) = sessionMetadata c"
  "pendingCommands (snd (onProcessExit c code)) = pendingCommands c"
  "stateChangeListeners (snd (onProcessExit c code)) = stateChangeListeners c"
  "sessionUpdateListeners (snd (onProcessExit c code)) = sessionUpdateListeners c"
  "stderrListeners (snd (onProcessExit c code)) = stderrListeners c"
  "agentConfig (snd (onProcessExit c code)) = agentConfig c"
  "skipAvailabilityCheck (snd (onProcessExit c code)) = skipAvailabilityCheck c"
  by (simp_all add: onProcessExit_def setState_def Let_def split: prod.splits option.splits)

lemma onProcessExit_handles:
  "fst (onProcessExit c code) = None \<Longrightarrow>
     process (snd (onProcessExit c code)) = None \<and> connection (snd (onProcessExit c code)) = None"
  by (auto simp: onProcessExit_def setState_def Let_def split: prod.splits option.splits if_splits)

lemma step_resets:
  assumes "resets c (step c e)"
  shows "e = Dispose \<or> (\<exists>config. e = SetAgent config \<and> state c \<noteq> disconnected) \<or>
         (\<exists>workingDirectory response. e = NewSession workingDirectory (Inr response))"
proof (cases e)
  case (NewSession wd answer)
  with assms show ?thesis
    by (cases answer) (auto simp: resets_def newSession_def split: if_splits)
next
  case (SetAgent config)
  with assms show ?thesis
    by (auto simp: resets_def setAgent_def split: if_splits)
qed (use assms in \<open>auto simp: resets_def connect_begin_def connect_settle_def connect_catch_def
      setState_def onProcessError_def onProcessExit_def onStderrData_def sessionUpdate_def
      storeCommands_def requestPermission_def setMode_def setModel_def sendMessage_def cancel_def
      setOnStateChange_def unsetOnStateChange_def setOnSessionUpdate_def unsetOnSessionUpdate_def
      setOnStderr_def unsetOnStderr_def Let_def
      split: if_splits prod.splits option.splits sum.splits SessionUpdate.splits\<close>)

text \<open>
  C10. The handler of the \<open>exit\<close> event sets the state to \<open>disconnected\<close> and, unless a
  state-change callback throws, drops the process and the connection. It leaves the
  session identifier, the metadata, the pending-commands slot, the callbacks and the
  configuration as they were, so \<open>getSessionMetadata\<close> still returns the metadata of
  before the exit. The only steps that reset the session are \<open>dispose\<close> (called directly,
  or by \<open>setAgent\<close> in a state other than \<open>disconnected\<close>) and a \<open>newSession\<close> that the agent
  answers.
\<close>

theorem process_exit_keeps_session:
  "state (snd (onProcessExit c code)) = disconnected \<and>
   currentSessionId (snd (onProcessExit c code)) = currentSessionId c \<and>
   sessionMetadata (snd (onProcessExit c code)) = sessionMetadata c \<and>
   pendingCommands (snd (onProcessExit c code)) = pendingCommands c \<and>
   getSessionMetadata (snd (onProcessExit c code)) = getSessionMetadata c \<and>
   stateChangeListeners (snd (onProcessExit c code)) = stateChangeListeners c \<and>
   sessionUpdateListeners (snd (onProcessExit c code)) = sessionUpdateListeners c \<and>
   stderrListeners (snd (onProcessExit c code)) = stderrListeners c \<and>
   agentConfig (snd (onProcessExit c code)) = agentConfig c \<and>
   skipAvailabilityCheck (snd (onProcessExit c code)) = skipAvailabilityCheck c \<and>
   (fst (onProcessExit c code) = None \<longrightarrow>
      process (snd (onProcessExit c code)) = None \<and>
      connection (snd (onProcessExit c code)) = None) \<and>
   (\<forall>c' e. resets c' (step c' e) \<longrightarrow>
      e = Dispose \<or> (\<exists>config. e = SetAgent config \<and> state c' \<noteq> disconnected) \<or>
      (\<exists>workingDirectory response. e = NewSession workingDirectory (Inr response)))"
  using onProcessExit_handles [of c code] step_resets
  by (simp add: onProcessExit_frame getSessionMetadata_def)

theorem process_exit_keeps_session_witness:
  "fst (onProcessExit sessionClient (Some 0)) = None \<and>
   process sessionClient = Some 7 \<and>
   process (snd (onProcessExit sessionClient (Some 0))) = None \<and>
   state (snd (onProcessExit sessionClient (Some 0))) = disconnected \<and>
   getSessionMetadata (snd (onProcessExit sessionClient (Some 0))) = getSessionMetadata sessionClient \<and>
   getSessionMetadata sessionClient \<noteq> None \<and>
   resets (snd (onProcessExit sessionClient (Some 0)))
     (step (snd (onProcessExit sessionClient (Some 0))) Dispose)"
proof -
  have a: "fst (onProcessExit sessionClient (Some 0)) = None"
    by (simp add: sessionClient_def client_defs)
  have b: "process sessionClient = Some 7" "getSessionMetadata sessionClient \<noteq> None"
    "currentSessionId sessionClient = Some ''s1''"
    by (simp_all add: sessionClient_def client_defs)
  from process_exit_keeps_session [of sessionClient "Some 0"] a
  have c: "process (snd (onProcessExit sessionClient (Some 0))) = None"
    "state (snd (onProcessExit sessionClient (Some 0))) = disconnected"
    "getSessionMetadata (snd (onProcessExit sessionClient (Some 0))) = getSessionMetadata sessionClient"
    "currentSessionId (snd (onProcessExit sessionClient (Some 0))) = currentSessionId sessionClient"
    by blast+
  from c(4) b(3)
  have "resets (snd (onProcessExit sessionClient (Some 0)))
     (step (snd (onProcessExit sessionClient (Some 0))) Dispose)"
    by (simp add: resets_def dispose_def setState_snd split: option.splits)
  with a b c show ?thesis by blast
qed

subsection \<open>The handles and the state\<close>

lemma quiet_set_add:
  "quiet c \<Longrightarrow> neverThrows cb \<Longrightarrow>
     quiet (c\<lparr>stateChangeListeners := set_add (stateChangeListeners c) cb\<rparr>)"
  by (auto simp: quiet_def set_add_def)

lemma quiet_set_delete:
  "quiet c \<Longrightarrow> quiet (c\<lparr>stateChangeListeners := set_delete (stateChangeListeners c) cb\<rparr>)"
  by (auto simp: quiet_def set_delete_def)

lemma handlesInv_new: "handlesInv (new_ACPClient defaultAgent lg arg)"
  by (simp add: handlesInv_def quiet_def new_ACPClient_def)

lemma dispose_quiet:
  "quiet c \<Longrightarrow>
     dispose c =
       (None,
        (if state c \<noteq> disconnected
         then c\<lparr>state := disconnected,
                stateChangeCalls := stateChangeCalls c @ callEach (stateChangeListeners c) disconnected\<rparr>
         else c)
        \<lparr>process := None, connection := None, currentSessionId := None, sessionMetadata := None,
          pendingCommands := None,
          killed := (case process c of Some p \<Rightarrow> killed c @ [p] | None \<Rightarrow> killed c)\<rparr>)"
  by (cases "process c") (simp_all add: dispose_def setState_quiet)

lemma handlesInv_step:
  assumes "handlesInv c" and "\<not> registersThrowing e"
  shows "handlesInv (step c e)"
proof (cases e)
  case (Connect available spawned)
  with assms show ?thesis
    by (cases spawned)
       (auto simp: handlesInv_def connect_begin_def setState_quiet connect_catch_quiet)
next
  case (ConnectSettled raced)
  with assms show ?thesis
    by (cases raced) (auto simp: handlesInv_def connect_settle_def setState_quiet connect_catch_quiet)
next
  case (ProcessError err)
  with assms show ?thesis
    by (auto simp: handlesInv_def onProcessError_def setState_quiet)
next
  case (ProcessExit code)
  with assms show ?thesis
    by (auto simp: handlesInv_def onProcessExit_def setState_quiet)
next
  case (StderrData chunk)
  with assms show ?thesis
    by (auto simp: handlesInv_def onStderrData_def split: prod.splits)
next
  case (SessionUpdateReceived params)
  with assms show ?thesis
    by (auto simp: handlesInv_def quiet_def sessionUpdate_fields sessionUpdate_state_calls)
next
  case (PermissionRequested params)
  with assms show ?thesis
    by (auto simp: handlesInv_def requestPermission_def Let_def split: option.splits)
next
  case (NewSession workingDirectory answer)
  with assms show ?thesis
    by (auto simp: handlesInv_def newSession_def split: sum.splits)
next
  case (SetMode newModeId answer)
  with assms show ?thesis
    by (auto simp: handlesInv_def setMode_def split: option.splits)
next
  case (SetModel newModelId answer)
  with assms show ?thesis
    by (auto simp: handlesInv_def setModel_def split: option.splits)
next
  case (SendMessage msg answer)
  with assms show ?thesis
    by (auto simp: handlesInv_def sendMessage_def split: sum.splits)
next
  case (Cancel answer)
  with assms show ?thesis
    by (auto simp: handlesInv_def cancel_def split: option.splits)
next
  case Dispose
  with assms show ?thesis
    by (auto simp: handlesInv_def dispose_quiet)
next
  case (SetAgent config)
  with assms show ?thesis
    by (auto simp: handlesInv_def setAgent_def dispose_quiet)
next
  case (SetOnStateChange cb)
  with assms show ?thesis
    by (auto simp: handlesInv_def setOnStateChange_def quiet_def set_add_def)
next
  case (UnsetOnStateChange cb)
  with assms show ?thesis
    by (auto simp: handlesInv_def unsetOnStateChange_def quiet_def set_delete_def)
next
  case (SetOnSessionUpdate cb)
  with assms show ?thesis
    by (auto simp: handlesInv_def setOnSessionUpdate_def)
next
  case (UnsetOnSessionUpdate cb)
  with assms show ?thesis
    by (auto simp: handlesInv_def unsetOnSessionUpdate_def)
next
  case (SetOnStderr cb)
  with assms show ?thesis
    by (auto simp: handlesInv_def setOnStderr_def)
next
  case (UnsetOnStderr cb)
  with assms show ?thesis
    by (auto simp: handlesInv_def unsetOnStderr_def)
qed

lemma handlesInv_run:
  "handlesInv c \<Longrightarrow> \<forall>e \<in> set evs. \<not> registersThrowing e \<Longrightarrow> handlesInv (run c evs)"
  by (induction evs arbitrary: c) (simp_all add: run_Nil run_Cons handlesInv_step)

text \<open>
  C3 as stated fails. While \<open>connect\<close> awaits the handshake there is a connection in state
  \<open>connecting\<close>; after a failed handshake there is a connection in state \<open>error\<close>; after a
  spawn that throws there is no process in state \<open>error\<close>; and when the process exits
  before the answer to the handshake arrives there is no process in state \<open>connected\<close>.
  With a state-change callback that throws on \<open>disconnected\<close>, the handler of the exit
  leaves the process in place in state \<open>disconnected\<close>. And inside a step: the handler of
  the exit changes the state and calls the callbacks before it drops the handles, so that
  a callback called with \<open>disconnected\<close> finds the process in place.
\<close>

theorem handles_counterexample:
  "connection (run freshClient [Connect True (Inr 7)]) = Some 7 \<and>
   state (run freshClient [Connect True (Inr 7)]) = connecting \<and>
   connection (run freshClient [Connect True (Inr 7), ConnectSettled (Inl (Exn ''handshake failed''))]) = Some 7 \<and>
   state (run freshClient [Connect True (Inr 7), ConnectSettled (Inl (Exn ''handshake failed''))]) = error \<and>
   process (run freshClient [Connect True (Inl (Exn ''spawn failed''))]) = None \<and>
   state (run freshClient [Connect True (Inl (Exn ''spawn failed''))]) = error \<and>
   process (run freshClient [Connect True (Inr 7), ProcessExit (Some 0),
                             ConnectSettled (Inr \<lparr>protocolVersion = 1\<rparr>)]) = None \<and>
   state (run freshClient [Connect True (Inr 7), ProcessExit (Some 0),
                           ConnectSettled (Inr \<lparr>protocolVersion = 1\<rparr>)]) = connected \<and>
   process (run freshClient
              [SetOnStateChange
                 \<lparr>cbId = 1,
                  cbThrows = (\<lambda>st. if st = disconnected then Some (Exn ''broken observer'') else None)\<rparr>,
               Connect True (Inr 7), ConnectSettled (Inr \<lparr>protocolVersion = 1\<rparr>),
               ProcessExit (Some 0)]) = Some 7 \<and>
   state (run freshClient
            [SetOnStateChange
               \<lparr>cbId = 1,
                cbThrows = (\<lambda>st. if st = disconnected then Some (Exn ''broken observer'') else None)\<rparr>,
             Connect True (Inr 7), ConnectSettled (Inr \<lparr>protocolVersion = 1\<rparr>),
             ProcessExit (Some 0)]) = disconnected \<and>
   state (snd (setState connectedClient disconnected)) = disconnected \<and>
   process (snd (setState connectedClient disconnected)) = Some 7 \<and>
   received 1 (stateChangeCalls (snd (setState connectedClient disconnected))) =
     [connecting, connected, disconnected] \<and>
   snd (onProcessExit connectedClient None) =
     (snd (setState connectedClient disconnected))
       \<lparr>connection := None, process := None,
         logger := logger_info (logger connectedClient) ''Process exited with code: null''\<rparr>"
  by (simp add: client_defs received_def)

text \<open>
  C3, as amended. Take the states of a new client between whole steps (a call of a method
  up to its \<open>await\<close> or its return, the continuation of \<open>connect\<close>, a handler of the child
  process, a callback of the protocol connection), along a run in which no state-change
  callback that can throw is registered; callbacks only observe. In every such state: a
  connection exists only in the states \<open>connecting\<close>, \<open>connected\<close> and \<open>error\<close>; there is
  a process exactly when there is a connection; in state \<open>disconnected\<close> there is no
  process; and in state \<open>connecting\<close> there is one. (The states \<open>connected\<close> and \<open>error\<close>
  occur with and without the handles.)
\<close>

theorem handles_follow_state:
  assumes "\<forall>e \<in> set evs. \<not> registersThrowing e"
  shows "(connection (run (new_ACPClient defaultAgent lg arg) evs) \<noteq> None \<longrightarrow>
            state (run (new_ACPClient defaultAgent lg arg) evs) \<in> {connecting, connected, error}) \<and>
         (process (run (new_ACPClient defaultAgent lg arg) evs) = None \<longleftrightarrow>
            connection (run (new_ACPClient defaultAgent lg arg) evs) = None) \<and>
         (state (run (new_ACPClient defaultAgent lg arg) evs) = disconnected \<longrightarrow>
            process (run (new_ACPClient defaultAgent lg arg) evs) = None) \<and>
         (state (run (new_ACPClient defaultAgent lg arg) evs) = connecting \<longrightarrow>
            process (run (new_ACPClient defaultAgent lg arg) evs) \<noteq> None)"
proof -
  from handlesInv_run [OF handlesInv_new assms]
  have "handlesInv (run (new_ACPClient defaultAgent lg arg) evs)" .
  then show ?thesis
    by (cases "state (run (new_ACPClient defaultAgent lg arg) evs)") (auto simp: handlesInv_def)
qed

theorem handles_follow_state_witness:
  "\<not> (\<exists>e \<in> set [SetOnStateChange (observer 1), Connect True (Inr 7),
                   ConnectSettled (Inr \<lparr>protocolVersion = 1\<rparr>), ProcessExit (Some 0)].
         registersThrowing e) \<and>
   state pendingClient = connecting \<and>
   process pendingClient \<noteq> None \<and>
   connection connectedClient \<noteq> None \<and>
   process connectedClient \<noteq> None \<and>
   state connectedClient \<in> {connecting, connected, error} \<and>
   state (run connectedClient [ProcessExit (Some 0)]) = disconnected \<and>
   process (run connectedClient [ProcessExit (Some 0)]) = None \<and>
   connection (run connectedClient [ProcessExit (Some 0)]) = None"
proof -
  define evs0 where "evs0 = [SetOnStateChange (observer 1), Connect True (Inr 7)]"
  define evs1 where "evs1 = evs0 @ [ConnectSettled (Inr \<lparr>protocolVersion = 1\<rparr>)]"
  define evs2 where "evs2 = evs1 @ [ProcessExit (Some 0)]"
  have h0: "\<forall>e \<in> set evs0. \<not> registersThrowing e"
    by (simp add: evs0_def neverThrows_def observer_def)
  then have h1: "\<forall>e \<in> set evs1. \<not> registersThrowing e"
    by (simp add: evs1_def)
  then have h2: "\<forall>e \<in> set evs2. \<not> registersThrowing e"
    by (simp add: evs2_def)
  have r0: "run (new_ACPClient echoAgent quietLogger no_argument) evs0 = pendingClient"
    by (simp add: pendingClient_def freshClient_def evs0_def)
  have r1: "run (new_ACPClient echoAgent quietLogger no_argument) evs1 = connectedClient"
    by (simp add: connectedClient_def freshClient_def evs1_def evs0_def)
  then have r2: "run (new_ACPClient echoAgent quietLogger no_argument) evs2 =
      run connectedClient [ProcessExit (Some 0)]"
    by (simp add: evs2_def run_append)
  have p: "state pendingClient = connecting"
    by (simp add: pendingClient_def client_defs)
  have c: "connection connectedClient \<noteq> None"
    by (simp add: client_defs)
  have s: "state (run connectedClient [ProcessExit (Some 0)]) = disconnected"
    by (simp add: run_Cons run_Nil onProcessExit_frame)
  note t0 = handles_follow_state [OF h0, of echoAgent quietLogger no_argument, unfolded r0]
  note t1 = handles_follow_state [OF h1, of echoAgent quietLogger no_argument, unfolded r1]
  note t2 = handles_follow_state [OF h2, of echoAgent quietLogger no_argument, unfolded r2]
  from t0 p have a0: "process pendingClient \<noteq> None"
    by blast
  from t1 c have a1: "state connectedClient \<in> {connecting, connected, error}"
    by blast
  from t1 [THEN conjunct2, THEN conjunct1] c have b1: "process connectedClient \<noteq> None"
    by simp
  from t2 s have a2: "process (run connectedClient [ProcessExit (Some 0)]) = None"
    by blast
  from t2 [THEN conjunct2, THEN conjunct1] a2
  have b2: "connection (run connectedClient [ProcessExit (Some 0)]) = None"
    by simp
  from h2 have "\<not> (\<exists>e \<in> set evs2. registersThrowing e)"
    by simp
  with p a0 c b1 a1 s a2 b2 show ?thesis
    unfolding evs0_def evs1_def evs2_def by simp
qed

subsection \<open>What state-change callbacks see\<close>

lemma noRepeats_notify:
  assumes "noRepeats cbs st calls" and "st' \<noteq> st"
  shows "noRepeats cbs st' (calls @ callEach cbs st')"
  unfolding noRepeats_def
proof (intro conjI allI)
  from assms show d: "distinct (map cbId cbs)"
    by (simp add: noRepeats_def)
  fix i
  from assms have a: "distinct_adj (received i calls)"
    and l: "received i calls \<noteq> [] \<longrightarrow> i \<in> cbId ` set cbs \<and> last (received i calls) = st"
    by (simp_all add: noRepeats_def)
  have r: "received i (calls @ callEach cbs st') =
             received i calls @ (if i \<in> cbId ` set cbs then [st'] else [])"
    by (simp add: received_append received_callEach [OF d])
  from a l assms(2) show "distinct_adj (received i (calls @ callEach cbs st'))"
    unfolding r by (auto simp: distinct_adj_append_iff)
  from l show "received i (calls @ callEach cbs st') \<noteq> [] \<longrightarrow>
      i \<in> cbId ` set cbs \<and> last (received i (calls @ callEach cbs st')) = st'"
    unfolding r by auto
qed

lemma noRepeats_notify2:
  assumes "noRepeats cbs st calls" and "st1 \<noteq> st" and "st2 \<noteq> st1"
  shows "noRepeats cbs st2 (calls @ callEach cbs st1 @ callEach cbs st2)"
  using noRepeats_notify [OF noRepeats_notify [OF assms(1,2)] assms(3)] by simp




lemma seenInv_update [simp]:
  "seenInv (c\<lparr>process := p\<rparr>) = seenInv c"
  "seenInv (c\<lparr>connection := p\<rparr>) = seenInv c"
  "seenInv (c\<lparr>logger := lg\<rparr>) = seenInv c"
  "seenInv (c\<lparr>currentSessionId := sid\<rparr>) = seenInv c"
  "seenInv (c\<lparr>sessionMetadata := md\<rparr>) = seenInv c"
  "seenInv (c\<lparr>pendingCommands := pc\<rparr>) = seenInv c"
  "seenInv (c\<lparr>killed := ks\<rparr>) = seenInv c"
  "seenInv (c\<lparr>agentConfig := cfg\<rparr>) = seenInv c"
  "seenInv (c\<lparr>sessionUpdateCalls := sc\<rparr>) = seenInv c"
  "seenInv (c\<lparr>stderrCalls := ec\<rparr>) = seenInv c"
  "seenInv (c\<lparr>sessionUpdateListeners := sl\<rparr>) = seenInv c"
  "seenInv (c\<lparr>stderrListeners := el\<rparr>) = seenInv c"
  by (simp_all add: seenInv_def)










lemma sameView_refl [simp]: "sameView c c"
  by (simp add: sameView_def)
















end
